theory Spec2Isabelle
  imports Complex_Main
begin

section \<open>Common Python notions\<close>

text \<open>
  The simulation core is Python. Its \<open>float\<close> and \<open>int\<close> quantities that take part in
  real-valued arithmetic are modelled as \<open>real\<close> (rounding, infinities and NaN are not
  modelled); counters are \<open>int\<close> or \<open>nat\<close>. A method that mutates \<open>self\<close> becomes a
  function that returns its outcome together with the updated object; the outcome is
  \<open>Inl e\<close> when the method raises \<open>e\<close>, and the object returned with it carries the
  mutations made before the raise.
\<close>

datatype py_error = KeyError | ValueError | ZeroDivisionError | AttributeError

text \<open>
  A \<open>dict\<close> whose iteration order matters is an association list in insertion order.
  \<open>d[k] = v\<close> replaces the value of an existing key in place and appends a new key;
  \<open>del d[k]\<close> removes the key; \<open>k in d\<close> is \<open>dict_has\<close>.
\<close>

fun dict_set :: "'k \<Rightarrow> 'v \<Rightarrow> ('k \<times> 'v) list \<Rightarrow> ('k \<times> 'v) list" where
  "dict_set k v [] = [(k, v)]"
| "dict_set k v ((k', v') # rest) =
     (if k' = k then (k, v) # rest else (k', v') # dict_set k v rest)"

definition dict_del :: "'k \<Rightarrow> ('k \<times> 'v) list \<Rightarrow> ('k \<times> 'v) list" where
  "dict_del k d = filter (\<lambda>p. fst p \<noteq> k) d"

definition dict_has :: "'k \<Rightarrow> ('k \<times> 'v) list \<Rightarrow> bool" where
  "dict_has k d = (k \<in> set (map fst d))"

definition dict_values :: "('k \<times> 'v) list \<Rightarrow> 'v list" where
  "dict_values d = map snd d"

text \<open>\<open>str(n)\<close> for a non-negative integer: its decimal digits.\<close>

definition digit_char :: "nat \<Rightarrow> char" where
  "digit_char d = ''0123456789'' ! d"

fun str_nat :: "nat \<Rightarrow> string" where
  "str_nat n = (if n < 10 then [digit_char n] else str_nat (n div 10) @ [digit_char (n mod 10)])"

declare str_nat.simps [simp del]

section \<open>Spacecraft design (systems/spacecraft\_system.py)\<close>

subsection \<open>Component specifications\<close>

text \<open>
  \<open>ComponentSpec\<close> and its five dataclass subclasses. The subclass and its extra fields
  are the \<open>kind\<close> of a component; \<open>isinstance(c, PowerComponent)\<close> is a test on the kind.
  \<open>size\<close> is a \<open>Dict[str, float]\<close>.
\<close>

datatype component_kind =
    BaseComponent
  | PropulsionComponent real real string real
      \<comment> \<open>thrust, isp, fuel\_type, fuel\_consumption\<close>
  | PowerComponent real real
      \<comment> \<open>power\_output, efficiency\<close>
  | StorageComponent real real string
      \<comment> \<open>volume, max\_mass, contents\_type\<close>
  | ControlComponent real real
      \<comment> \<open>control\_power, redundancy\<close>
  | LifeSupportComponent int real real
      \<comment> \<open>crew\_capacity, oxygen\_generation, water\_recycling\<close>

record ComponentSpec =
  comp_id :: string
  comp_name :: string
  comp_description :: string
  mass :: real
  cost :: real
  power_required :: real
  tech_requirement :: string
  comp_category :: string
  comp_size :: "string \<rightharpoonup> real"
  reliability :: real
  kind :: component_kind

subsection \<open>The design and its statistics\<close>

record SpacecraftDesign =
  design_name :: string
  components :: "(string \<times> ComponentSpec) list"
  layout :: "(string \<times> (string \<rightharpoonup> real)) list"
  stat_mass :: real
  stat_cost :: real
  stat_power_balance :: real
  stat_delta_v :: real
  stat_reliability :: real

definition new_design :: "string \<Rightarrow> SpacecraftDesign" where
  "new_design n =
     \<lparr>design_name = n, components = [], layout = [],
      stat_mass = 0, stat_cost = 0, stat_power_balance = 0, stat_delta_v = 0,
      stat_reliability = 0\<rparr>"

text \<open>
  The parenthesised test of \<open>_components_overlap\<close> on one axis:
  \<open>pos1[axis] + size1[axis] < pos2[axis] or pos1[axis] > pos2[axis] + size2[axis]\<close>.
  A missing key raises \<open>KeyError\<close>; \<open>size2[axis]\<close> is read only when the first
  comparison is false.
\<close>

definition axis_apart ::
  "(string \<rightharpoonup> real) \<Rightarrow> (string \<rightharpoonup> real) \<Rightarrow> (string \<rightharpoonup> real) \<Rightarrow> (string \<rightharpoonup> real)
     \<Rightarrow> string \<Rightarrow> py_error + bool" where
  "axis_apart size1 pos1 size2 pos2 axis =
     (case pos1 axis of
        None \<Rightarrow> Inl KeyError
      | Some p1 \<Rightarrow>
          (case size1 axis of
             None \<Rightarrow> Inl KeyError
           | Some s1 \<Rightarrow>
               (case pos2 axis of
                  None \<Rightarrow> Inl KeyError
                | Some p2 \<Rightarrow>
                    if p1 + s1 < p2 then Inr True
                    else (case size2 axis of
                            None \<Rightarrow> Inl KeyError
                          | Some s2 \<Rightarrow> Inr (p1 > p2 + s2)))))"

text \<open>
  The loop of \<open>_components_overlap\<close> over the axes: it returns \<open>True\<close> at the first
  axis whose test is not satisfied, and \<open>False\<close> when the axes are exhausted.
\<close>

fun overlap_loop ::
  "(string \<rightharpoonup> real) \<Rightarrow> (string \<rightharpoonup> real) \<Rightarrow> (string \<rightharpoonup> real) \<Rightarrow> (string \<rightharpoonup> real)
     \<Rightarrow> string list \<Rightarrow> py_error + bool" where
  "overlap_loop size1 pos1 size2 pos2 [] = Inr False"
| "overlap_loop size1 pos1 size2 pos2 (axis # axes) =
     (case axis_apart size1 pos1 size2 pos2 axis of
        Inl e \<Rightarrow> Inl e
      | Inr apart \<Rightarrow>
          if \<not> apart then Inr True else overlap_loop size1 pos1 size2 pos2 axes)"

definition components_overlap ::
  "(string \<rightharpoonup> real) \<Rightarrow> (string \<rightharpoonup> real) \<Rightarrow> (string \<rightharpoonup> real) \<Rightarrow> (string \<rightharpoonup> real)
     \<Rightarrow> py_error + bool" where
  "components_overlap size1 pos1 size2 pos2 =
     overlap_loop size1 pos1 size2 pos2 [''x'', ''y'', ''z'']"

text \<open>
  \<open>_check_collision\<close>: the loop over \<open>self.components.items()\<close>, reading
  \<open>self.layout[comp_id]\<close> for each.
\<close>

fun collision_loop ::
  "(string \<times> (string \<rightharpoonup> real)) list \<Rightarrow> ComponentSpec \<Rightarrow> (string \<rightharpoonup> real)
     \<Rightarrow> (string \<times> ComponentSpec) list \<Rightarrow> py_error + bool" where
  "collision_loop lay new_component position [] = Inr False"
| "collision_loop lay new_component position ((cid, other) # rest) =
     (case map_of lay cid of
        None \<Rightarrow> Inl KeyError
      | Some other_pos \<Rightarrow>
          (case components_overlap (comp_size new_component) position (comp_size other) other_pos of
             Inl e \<Rightarrow> Inl e
           | Inr hit \<Rightarrow>
               if hit then Inr True else collision_loop lay new_component position rest))"

definition check_collision ::
  "SpacecraftDesign \<Rightarrow> ComponentSpec \<Rightarrow> (string \<rightharpoonup> real) \<Rightarrow> py_error + bool" where
  "check_collision d new_component position =
     collision_loop (layout d) new_component position (components d)"

text \<open>
  The first loop of \<open>_update_statistics\<close>, on the accumulators
  (mass, cost, power balance, reliability).
\<close>

fun base_stats_loop :: "ComponentSpec list \<Rightarrow> real \<times> real \<times> real \<times> real \<Rightarrow> real \<times> real \<times> real \<times> real" where
  "base_stats_loop [] acc = acc"
| "base_stats_loop (c # cs) (m, co, pb, r) =
     base_stats_loop cs
       (m + mass c, co + cost c,
        (case kind c of
           PowerComponent power_output eff \<Rightarrow> pb - power_required c + power_output
         | _ \<Rightarrow> pb - power_required c),
        r * reliability c)"

text \<open>
  The second loop, on (total\_fuel, total\_thrust, avg\_isp, num\_engines).
\<close>

fun propulsion_loop :: "ComponentSpec list \<Rightarrow> real \<times> real \<times> real \<times> nat \<Rightarrow> real \<times> real \<times> real \<times> nat" where
  "propulsion_loop [] acc = acc"
| "propulsion_loop (c # cs) (total_fuel, total_thrust, avg_isp, num_engines) =
     propulsion_loop cs
       (case kind c of
          PropulsionComponent thrust isp ft fc \<Rightarrow>
            (total_fuel, total_thrust + thrust, avg_isp + isp, num_engines + 1)
        | StorageComponent vol max_mass contents_type \<Rightarrow>
            if contents_type = ''FUEL''
            then (total_fuel + max_mass, total_thrust, avg_isp, num_engines)
            else (total_fuel, total_thrust, avg_isp, num_engines)
        | _ \<Rightarrow> (total_fuel, total_thrust, avg_isp, num_engines))"

text \<open>
  \<open>_update_statistics\<close>. The four base statistics are written first. The delta-v is
  written only under \<open>num_engines > 0 and total_fuel > 0\<close>; there the division
  \<open>self._mass / dry_mass\<close> raises \<open>ZeroDivisionError\<close> on a zero dry mass and
  \<open>math.log\<close> raises \<open>ValueError\<close> on an argument that is not positive.
\<close>

definition update_statistics :: "SpacecraftDesign \<Rightarrow> (py_error + unit) \<times> SpacecraftDesign" where
  "update_statistics d =
     (case base_stats_loop (dict_values (components d)) (0, 0, 0, 1) of
        (m, co, pb, r) \<Rightarrow>
          let d1 = d\<lparr>stat_mass := m, stat_cost := co, stat_power_balance := pb,
                     stat_reliability := r\<rparr>
          in (case propulsion_loop (dict_values (components d)) (0, 0, 0, 0) of
                (total_fuel, total_thrust, isp_sum, num_engines) \<Rightarrow>
                  if num_engines > 0 \<and> total_fuel > 0 then
                    let avg_isp = isp_sum / real num_engines;
                        dry_mass = m - total_fuel
                    in if dry_mass = 0 then (Inl ZeroDivisionError, d1)
                       else if m / dry_mass \<le> 0 then (Inl ValueError, d1)
                       else (Inr (), d1\<lparr>stat_delta_v := avg_isp * 9.81 * ln (m / dry_mass)\<rparr>)
                  else (Inr (), d1)))"

definition add_component ::
  "SpacecraftDesign \<Rightarrow> ComponentSpec \<Rightarrow> (string \<rightharpoonup> real) \<Rightarrow> (py_error + bool) \<times> SpacecraftDesign" where
  "add_component d component position =
     (case check_collision d component position of
        Inl e \<Rightarrow> (Inl e, d)
      | Inr hit \<Rightarrow>
          if hit then (Inr False, d)
          else
            let component_id = comp_id component @ ''_'' @ str_nat (length (components d));
                d1 = d\<lparr>components := dict_set component_id component (components d)\<rparr>;
                d2 = d1\<lparr>layout := dict_set component_id position (layout d1)\<rparr>
            in (case update_statistics d2 of
                  (Inl e, d3) \<Rightarrow> (Inl e, d3)
                | (Inr u, d3) \<Rightarrow> (Inr True, d3)))"

definition remove_component ::
  "SpacecraftDesign \<Rightarrow> string \<Rightarrow> (py_error + bool) \<times> SpacecraftDesign" where
  "remove_component d component_id =
     (if dict_has component_id (components d) then
        let d1 = d\<lparr>components := dict_del component_id (components d)\<rparr>
        in if \<not> dict_has component_id (layout d1) then (Inl KeyError, d1)
           else
             let d2 = d1\<lparr>layout := dict_del component_id (layout d1)\<rparr>
             in (case update_statistics d2 of
                   (Inl e, d3) \<Rightarrow> (Inl e, d3)
                 | (Inr u, d3) \<Rightarrow> (Inr True, d3))
      else (Inr False, d))"

text \<open>\<open>get_summary\<close>: the dictionary of statistics.\<close>

definition get_summary :: "SpacecraftDesign \<Rightarrow> (string \<rightharpoonup> real)" where
  "get_summary d =
     [''mass'' \<mapsto> stat_mass d,
      ''cost'' \<mapsto> stat_cost d,
      ''power_balance'' \<mapsto> stat_power_balance d,
      ''delta_v'' \<mapsto> stat_delta_v d,
      ''reliability'' \<mapsto> stat_reliability d,
      ''component_count'' \<mapsto> real (length (components d))]"

subsection \<open>The component library\<close>

definition BASIC_ANTENNA :: ComponentSpec where
  "BASIC_ANTENNA =
     \<lparr>comp_id = ''BASIC_ANTENNA'', comp_name = ''Basic Antenna'',
      comp_description = ''Simple communication antenna for short-range transmission'',
      mass = 10, cost = 500, power_required = 0.1, tech_requirement = '''',
      comp_category = ''CONTROL'',
      comp_size = [''x'' \<mapsto> 0.5, ''y'' \<mapsto> 0.5, ''z'' \<mapsto> 1],
      reliability = 0.98, kind = ControlComponent 0.5 0.0\<rparr>"

definition BASIC_RADIO :: ComponentSpec where
  "BASIC_RADIO =
     \<lparr>comp_id = ''BASIC_RADIO'', comp_name = ''Basic Radio'',
      comp_description = ''Basic communication radio for mission control contact'',
      mass = 5, cost = 300, power_required = 0.2, tech_requirement = '''',
      comp_category = ''CONTROL'',
      comp_size = [''x'' \<mapsto> 0.3, ''y'' \<mapsto> 0.3, ''z'' \<mapsto> 0.3],
      reliability = 0.99, kind = ControlComponent 0.3 0.0\<rparr>"

definition BASIC_ENGINE :: ComponentSpec where
  "BASIC_ENGINE =
     \<lparr>comp_id = ''BASIC_ENGINE'', comp_name = ''Basic Rocket Engine'',
      comp_description = ''Simple liquid fuel rocket engine'',
      mass = 1000, cost = 10000, power_required = 10, tech_requirement = ''BASIC_ROCKETRY'',
      comp_category = ''PROPULSION'',
      comp_size = [''x'' \<mapsto> 2, ''y'' \<mapsto> 2, ''z'' \<mapsto> 3],
      reliability = 0.95, kind = PropulsionComponent 100 280 ''LIQUID'' 0.5\<rparr>"

definition BASIC_TANK :: ComponentSpec where
  "BASIC_TANK =
     \<lparr>comp_id = ''BASIC_TANK'', comp_name = ''Basic Fuel Tank'',
      comp_description = ''Standard fuel tank'',
      mass = 500, cost = 5000, power_required = 0, tech_requirement = ''BASIC_ROCKETRY'',
      comp_category = ''STORAGE'',
      comp_size = [''x'' \<mapsto> 2, ''y'' \<mapsto> 2, ''z'' \<mapsto> 4],
      reliability = 0.98, kind = StorageComponent 10 10000 ''FUEL''\<rparr>"

definition SOLAR_PANEL :: ComponentSpec where
  "SOLAR_PANEL =
     \<lparr>comp_id = ''SOLAR_PANEL'', comp_name = ''Basic Solar Panel'',
      comp_description = ''Standard solar power generation'',
      mass = 100, cost = 15000, power_required = 0, tech_requirement = ''LIQUID_FUEL'',
      comp_category = ''POWER'',
      comp_size = [''x'' \<mapsto> 4, ''y'' \<mapsto> 0.1, ''z'' \<mapsto> 2],
      reliability = 0.96, kind = PowerComponent 5 0.20\<rparr>"

definition BASIC_COMPUTER :: ComponentSpec where
  "BASIC_COMPUTER =
     \<lparr>comp_id = ''BASIC_COMPUTER'', comp_name = ''Basic Flight Computer'',
      comp_description = ''Standard guidance system'',
      mass = 50, cost = 20000, power_required = 0.5, tech_requirement = ''BASIC_ROCKETRY'',
      comp_category = ''CONTROL'',
      comp_size = [''x'' \<mapsto> 0.5, ''y'' \<mapsto> 0.5, ''z'' \<mapsto> 0.5],
      reliability = 0.99, kind = ControlComponent 1.0 0.5\<rparr>"

definition library_components :: "(string \<times> ComponentSpec) list" where
  "library_components =
     [(''BASIC_ANTENNA'', BASIC_ANTENNA), (''BASIC_RADIO'', BASIC_RADIO),
      (''BASIC_ENGINE'', BASIC_ENGINE), (''BASIC_TANK'', BASIC_TANK),
      (''SOLAR_PANEL'', SOLAR_PANEL), (''BASIC_COMPUTER'', BASIC_COMPUTER)]"

definition pos3 :: "real \<Rightarrow> real \<Rightarrow> real \<Rightarrow> (string \<rightharpoonup> real)" where
  "pos3 px py pz = [''x'' \<mapsto> px, ''y'' \<mapsto> py, ''z'' \<mapsto> pz]"

section \<open>Research system (systems/research\_system.py)\<close>

record Technology =
  tech_id :: string
  tech_name :: string
  tech_description :: string
  tech_cost :: int
  research_time :: int
  prerequisites :: "string list"
  tech_category :: string
  level :: int
  effects :: "(string \<times> real) list"
  unlocks :: "string list"

text \<open>
  \<open>Technology.is_available\<close>: no prerequisites, or all of them researched.
\<close>

definition is_available :: "Technology \<Rightarrow> string list \<Rightarrow> bool" where
  "is_available t researched =
     (if prerequisites t = [] then True
      else list_all (\<lambda>prereq. prereq \<in> set researched) (prerequisites t))"

record ResearchProject =
  technology :: Technology
  progress :: real
  scientists_assigned :: int
  status :: string

text \<open>
  \<open>ResearchProject.update_progress\<close>. The division by \<open>research_time\<close> raises
  \<open>ZeroDivisionError\<close> when it is zero.
\<close>

definition update_progress :: "ResearchProject \<Rightarrow> real \<Rightarrow> (py_error + bool) \<times> ResearchProject" where
  "update_progress p eff =
     (if status p = ''ACTIVE'' then
        if research_time (technology p) = 0 then (Inl ZeroDivisionError, p)
        else
          let progress_increase =
                (real_of_int (scientists_assigned p) * eff) / real_of_int (research_time (technology p));
              p1 = p\<lparr>progress := min 100 (progress p + progress_increase)\<rparr>
          in if progress p1 \<ge> 100 then (Inr True, p1\<lparr>status := ''COMPLETED''\<rparr>)
             else (Inr False, p1)
      else (Inr False, p))"

record ResearchSystem =
  technologies :: "(string \<times> Technology) list"
  active_projects :: "(string \<times> ResearchProject) list"
  researched_technologies :: "string list"
  available_scientists :: int
  research_points :: int
  efficiency :: real

definition BASIC_ROCKETRY :: Technology where
  "BASIC_ROCKETRY =
     \<lparr>tech_id = ''BASIC_ROCKETRY'', tech_name = ''Basic Rocketry'',
      tech_description = ''Fundamentos de la ingenieria de cohetes'',
      tech_cost = 100, research_time = 5, prerequisites = [],
      tech_category = ''PROPULSION'', level = 1,
      effects = [(''thrust_efficiency'', 1.1)], unlocks = [''LIQUID_FUEL'']\<rparr>"

definition LIQUID_FUEL :: Technology where
  "LIQUID_FUEL =
     \<lparr>tech_id = ''LIQUID_FUEL'', tech_name = ''Liquid Fuel Systems'',
      tech_description = ''Sistemas avanzados de combustible liquido'',
      tech_cost = 200, research_time = 10, prerequisites = [''BASIC_ROCKETRY''],
      tech_category = ''PROPULSION'', level = 2,
      effects = [(''fuel_efficiency'', 1.2)], unlocks = [''ADVANCED_PROPULSION'']\<rparr>"

text \<open>\<open>ResearchSystem.__init__\<close> followed by \<open>load_technologies\<close>.\<close>

definition new_research_system :: ResearchSystem where
  "new_research_system =
     \<lparr>technologies = [(''BASIC_ROCKETRY'', BASIC_ROCKETRY), (''LIQUID_FUEL'', LIQUID_FUEL)],
      active_projects = [], researched_technologies = [],
      available_scientists = 10, research_points = 1000, efficiency = 1.0\<rparr>"

definition start_research :: "ResearchSystem \<Rightarrow> string \<Rightarrow> int \<Rightarrow> bool \<times> ResearchSystem" where
  "start_research s tid scientists =
     (case map_of (technologies s) tid of
        None \<Rightarrow> (False, s)
      | Some tech \<Rightarrow>
          if \<not> is_available tech (researched_technologies s) then (False, s)
          else if tid \<in> set (researched_technologies s) then (False, s)
          else if scientists > available_scientists s then (False, s)
          else if tech_cost tech > research_points s then (False, s)
          else
            (True,
             s\<lparr>active_projects :=
                  dict_set tid
                    \<lparr>technology = tech, progress = 0, scientists_assigned = scientists,
                     status = ''ACTIVE''\<rparr>
                    (active_projects s),
               available_scientists := available_scientists s - scientists,
               research_points := research_points s - tech_cost tech\<rparr>))"

text \<open>
  The first loop of \<open>update_research\<close> over \<open>self.active_projects.items()\<close>. The
  accumulator holds the projects already visited (each object is updated in place), the
  list \<open>completed_techs\<close>, \<open>researched_technologies\<close> and \<open>available_scientists\<close>.
  When \<open>update_progress\<close> raises, the projects not yet visited are left as they were.
\<close>

fun research_loop ::
  "real \<Rightarrow> (string \<times> ResearchProject) list
     \<Rightarrow> (string \<times> ResearchProject) list \<times> string list \<times> string list \<times> int
     \<Rightarrow> (py_error + unit) \<times> ((string \<times> ResearchProject) list \<times> string list \<times> string list \<times> int)" where
  "research_loop eff [] acc = (Inr (), acc)"
| "research_loop eff ((tid, project) # rest) (visited, completed_techs, researched, avail) =
     (case update_progress project eff of
        (Inl e, project') \<Rightarrow>
          (Inl e, (visited @ (tid, project') # rest, completed_techs, researched, avail))
      | (Inr finished, project') \<Rightarrow>
          if finished then
            research_loop eff rest
              (visited @ [(tid, project')], completed_techs @ [tid],
               (if tid \<notin> set researched then researched @ [tid] else researched),
               avail + scientists_assigned project')
          else
            research_loop eff rest
              (visited @ [(tid, project')], completed_techs, researched, avail))"

text \<open>The second loop: \<open>del self.active_projects[tech_id]\<close> for the completed ones.\<close>

fun delete_completed :: "string list \<Rightarrow> (string \<times> ResearchProject) list \<Rightarrow> (string \<times> ResearchProject) list" where
  "delete_completed [] projects = projects"
| "delete_completed (tid # tids) projects =
     delete_completed tids (if dict_has tid projects then dict_del tid projects else projects)"

definition update_research :: "ResearchSystem \<Rightarrow> (py_error + string list) \<times> ResearchSystem" where
  "update_research s =
     (case research_loop (efficiency s) (active_projects s)
             ([], [], researched_technologies s, available_scientists s) of
        (Inl e, (projects, completed_techs, researched, avail)) \<Rightarrow>
          (Inl e, s\<lparr>active_projects := projects, researched_technologies := researched,
                    available_scientists := avail\<rparr>)
      | (Inr u, (projects, completed_techs, researched, avail)) \<Rightarrow>
          (Inr completed_techs,
           s\<lparr>active_projects := delete_completed completed_techs projects,
             researched_technologies := researched,
             available_scientists := avail\<rparr>))"

definition pause_research :: "ResearchSystem \<Rightarrow> string \<Rightarrow> bool \<times> ResearchSystem" where
  "pause_research s tid =
     (case map_of (active_projects s) tid of
        Some project \<Rightarrow>
          (True,
           s\<lparr>active_projects :=
                dict_set tid (project\<lparr>status := ''PAUSED'', scientists_assigned := 0\<rparr>)
                  (active_projects s),
             available_scientists := available_scientists s + scientists_assigned project\<rparr>)
      | None \<Rightarrow> (False, s))"

definition resume_research :: "ResearchSystem \<Rightarrow> string \<Rightarrow> int \<Rightarrow> bool \<times> ResearchSystem" where
  "resume_research s tid scientists =
     (case map_of (active_projects s) tid of
        Some project \<Rightarrow>
          if scientists \<le> available_scientists s then
            (True,
             s\<lparr>active_projects :=
                  dict_set tid (project\<lparr>status := ''ACTIVE'', scientists_assigned := scientists\<rparr>)
                    (active_projects s),
               available_scientists := available_scientists s - scientists\<rparr>)
          else (False, s)
      | None \<Rightarrow> (False, s))"

text \<open>
  The scientists of the system: the idle ones and those assigned to the projects in
  \<open>active_projects\<close>.
\<close>

definition total_scientists :: "ResearchSystem \<Rightarrow> int" where
  "total_scientists s =
     available_scientists s + sum_list (map (\<lambda>kp. scientists_assigned (snd kp)) (active_projects s))"

section \<open>Mission controller (ui/mission\_controller.py, models/mission\_data.py)\<close>

record MissionData =
  altitude :: real
  velocity :: real
  fuel :: real
  orbit_status :: string
  stage :: int
  thrust :: real
  orientation :: real
  temperature :: real
  battery :: real
  comms :: bool

definition create_default :: MissionData where
  "create_default =
     \<lparr>altitude = 0, velocity = 0, fuel = 100, orbit_status = ''PRE-LAUNCH'', stage = 1,
      thrust = 0, orientation = 90, temperature = 20, battery = 100, comms = True\<rparr>"

text \<open>
  The controller's own state. The widgets are left out, except for what the control
  panel's event log receives (\<open>event_log\<close>, a message and its level, in the order
  logged) and whether a timer callback is pending in the GUI (\<open>tick_pending\<close>);
  \<open>update_timer\<close> tells whether the attribute holds a timer id.
\<close>

record MissionController =
  mission_active :: bool
  mission_time :: int
  anomaly_chance :: real
  target_altitude :: real
  target_velocity :: real
  mission_data :: MissionData
  systems :: "(string \<times> bool) list"
  update_timer :: bool
  tick_pending :: bool
  event_log :: "(string \<times> string) list"

definition new_controller :: MissionController where
  "new_controller =
     \<lparr>mission_active = False, mission_time = 0, anomaly_chance = 0.01,
      target_altitude = 300, target_velocity = 7.8, mission_data = create_default,
      systems = [(''PROP'', True), (''GUID'', True), (''ELEC'', True), (''COMM'', True),
                 (''LIFE'', True), (''THRM'', True)],
      update_timer = False, tick_pending = False, event_log = []\<rparr>"

definition log_event :: "string \<Rightarrow> string \<Rightarrow> MissionController \<Rightarrow> MissionController" where
  "log_event message lvl s = s\<lparr>event_log := event_log s @ [(message, lvl)]\<rparr>"

text \<open>
  \<open>stage_factors\<close> of \<open>_update_physics\<close>: the factors for altitude, velocity and fuel.
\<close>

definition stage_factors :: "(int \<times> (real \<times> real \<times> real)) list" where
  "stage_factors = [(1, (0.1, 0.05, 0.2)), (2, (0.05, 0.1, 0.1))]"

definition update_physics_data :: "MissionData \<Rightarrow> MissionData" where
  "update_physics_data m =
     (case (case map_of stage_factors (stage m) of
              Some f \<Rightarrow> f
            | None \<Rightarrow> (0.1, 0.05, 0.2)) of
        (f_altitude, f_velocity, f_fuel) \<Rightarrow>
          let m1 = m\<lparr>altitude := altitude m + thrust m * f_altitude\<rparr>;
              m2 = m1\<lparr>velocity := velocity m1 + thrust m1 * f_velocity\<rparr>;
              m3 = m2\<lparr>fuel := fuel m2 - thrust m2 * f_fuel\<rparr>;
              m4 = (if altitude m3 < 100 then m3\<lparr>velocity := velocity m3 - 0.01\<rparr> else m3);
              m5 = m4\<lparr>battery := battery m4 - 0.01\<rparr>
          in if thrust m5 > 50 then m5\<lparr>temperature := temperature m5 + 0.1\<rparr>
             else m5\<lparr>temperature := max 20 (temperature m5 - 0.05)\<rparr>)"

definition update_physics :: "MissionController \<Rightarrow> MissionController" where
  "update_physics s = s\<lparr>mission_data := update_physics_data (mission_data s)\<rparr>"

text \<open>
  \<open>_check_anomalies\<close>. The two random draws are parameters: \<open>rnd\<close> is the value of
  \<open>random.random()\<close> and \<open>pick\<close> the index that \<open>random.choice\<close> selects (taken
  modulo the number of anomaly types).
\<close>

definition anomaly_types :: "(string \<times> string \<times> string) list" where
  "anomaly_types =
     [(''PROP'', ''Propulsion system fluctuation detected'', ''WARNING''),
      (''GUID'', ''Guidance system interference detected'', ''WARNING''),
      (''ELEC'', ''Power system voltage irregularity'', ''WARNING''),
      (''COMM'', ''Communication signal degradation'', ''WARNING''),
      (''LIFE'', ''Life support minor pressure variance'', ''WARNING''),
      (''THRM'', ''Thermal control deviation detected'', ''WARNING'')]"

definition check_anomalies :: "real \<Rightarrow> nat \<Rightarrow> MissionController \<Rightarrow> MissionController" where
  "check_anomalies rnd pick s =
     (if rnd < anomaly_chance s then
        (case anomaly_types ! (pick mod length anomaly_types) of
           (sys, message, lvl) \<Rightarrow>
             log_event message lvl (s\<lparr>systems := dict_set sys False (systems s)\<rparr>))
      else s)"

text \<open>
  The methods that class \<open>OrbitDisplay\<close> (ui/orbit\_display.py) defines. A call of any
  other name on the display raises \<open>AttributeError\<close>; what the methods draw is left out.
\<close>

definition orbit_display_methods :: "string list" where
  "orbit_display_methods =
     [''__init__'', ''_create_display'', ''_create_legend'', ''_draw_grid'', ''_draw_earth'',
      ''_calculate_spacecraft_position'', ''update_display'']"

definition orbit_display_call :: "string \<Rightarrow> py_error + unit" where
  "orbit_display_call m =
     (if m \<in> set orbit_display_methods then Inr () else Inl AttributeError)"

text \<open>
  \<open>reset_mission\<close>: mission time, mission data and the subsystem flags are reset and the
  telemetry panel is cleared; then \<open>self.orbit_display.clear_trajectory()\<close> is called,
  and only after it the log is cleared and the reset is logged.
\<close>

definition reset_mission :: "MissionController \<Rightarrow> (py_error + unit) \<times> MissionController" where
  "reset_mission s =
     (let s1 = s\<lparr>mission_time := 0, mission_data := create_default,
                 systems := map (\<lambda>kv. (fst kv, True)) (systems s)\<rparr>
      in case orbit_display_call ''clear_trajectory'' of
           Inl e \<Rightarrow> (Inl e, s1)
         | Inr u \<Rightarrow>
             (Inr (), log_event ''MISSION RESET COMPLETE'' ''INFO'' (s1\<lparr>event_log := []\<rparr>)))"

definition abort_mission :: "MissionController \<Rightarrow> (py_error + unit) \<times> MissionController" where
  "abort_mission s =
     (if mission_active s then
        let s1 = log_event ''MISSION ABORT COMMANDED'' ''ERROR'' (s\<lparr>mission_active := False\<rparr>);
            s2 = (if update_timer s1 then s1\<lparr>tick_pending := False\<rparr> else s1)
        in reset_mission s2
      else (Inr (), s))"

definition check_mission_status :: "MissionController \<Rightarrow> (py_error + unit) \<times> MissionController" where
  "check_mission_status s =
     (if fuel (mission_data s) \<le> 0 then
        abort_mission (log_event ''CRITICAL: Fuel depleted'' ''ERROR'' s)
      else
        let s1 = (if battery (mission_data s) \<le> 10
                  then log_event ''WARNING: Low battery'' ''WARNING'' s else s)
        in if temperature (mission_data s1) > 100 then
             abort_mission (log_event ''CRITICAL: Temperature critical'' ''ERROR'' s1)
           else if \<bar>altitude (mission_data s1) - target_altitude s1\<bar> < 10 \<and>
                   \<bar>velocity (mission_data s1) - target_velocity s1\<bar> < 0.1 then
             (Inr (), log_event ''SUCCESS: Target orbit achieved!'' ''SUCCESS'' s1)
           else (Inr (), s1))"

text \<open>
  \<open>update_mission\<close>, one timer tick. The telemetry panel only reads the state; the
  orbit display is called with \<open>update_display\<close>. An exception out of the status check
  leaves the tick before the next one is scheduled.
\<close>

definition update_mission ::
  "real \<Rightarrow> nat \<Rightarrow> MissionController \<Rightarrow> (py_error + unit) \<times> MissionController" where
  "update_mission rnd pick s =
     (if \<not> mission_active s then (Inr (), s)
      else
        let s1 = s\<lparr>mission_time := mission_time s + 1\<rparr>;
            s2 = update_physics s1;
            s3 = check_anomalies rnd pick s2
        in case orbit_display_call ''update_display'' of
             Inl e \<Rightarrow> (Inl e, s3)
           | Inr u \<Rightarrow>
               (case check_mission_status s3 of
                  (Inl e, s4) \<Rightarrow> (Inl e, s4)
                | (Inr u', s4) \<Rightarrow>
                    (Inr (),
                     if mission_active s4
                     then s4\<lparr>update_timer := True, tick_pending := True\<rparr> else s4)))"

section \<open>Notions used to state the properties\<close>

text \<open>
  Following the specification's words: two boxes overlap on all three axes, that is, on
  none of \<open>x\<close>, \<open>y\<close>, \<open>z\<close> does the per-axis test find them apart.
\<close>

definition boxes_overlap_all_axes ::
  "(string \<rightharpoonup> real) \<Rightarrow> (string \<rightharpoonup> real) \<Rightarrow> (string \<rightharpoonup> real) \<Rightarrow> (string \<rightharpoonup> real) \<Rightarrow> bool" where
  "boxes_overlap_all_axes size1 pos1 size2 pos2 =
     list_all (\<lambda>axis. axis_apart size1 pos1 size2 pos2 axis = Inr False) [''x'', ''y'', ''z'']"

text \<open>
  \<open>isinstance(c, PowerComponent)\<close>, and the \<open>power_output\<close> of such a component.
\<close>

definition is_power_component :: "ComponentSpec \<Rightarrow> bool" where
  "is_power_component c = (case kind c of PowerComponent po eff \<Rightarrow> True | _ \<Rightarrow> False)"

definition power_output :: "ComponentSpec \<Rightarrow> real" where
  "power_output c = (case kind c of PowerComponent po eff \<Rightarrow> po | _ \<Rightarrow> 0)"

text \<open>
  Following the specification's words: mass and cost are the sums over the placed
  components, the power balance is generation minus consumption, the reliability is the
  product of the component reliabilities.
\<close>

definition aggregates_consistent :: "SpacecraftDesign \<Rightarrow> bool" where
  "aggregates_consistent d =
     (stat_mass d = sum_list (map mass (dict_values (components d))) \<and>
      stat_cost d = sum_list (map cost (dict_values (components d))) \<and>
      stat_power_balance d =
        sum_list (map power_output (filter is_power_component (dict_values (components d))))
          - sum_list (map power_required (dict_values (components d))) \<and>
      stat_reliability d = prod_list (map reliability (dict_values (components d))))"

text \<open>
  The number of propulsion components of a design and its total fuel mass, as the second
  loop of \<open>_update_statistics\<close> counts them.
\<close>

definition num_engines :: "SpacecraftDesign \<Rightarrow> nat" where
  "num_engines d =
     (case propulsion_loop (dict_values (components d)) (0, 0, 0, 0) of
        (total_fuel, total_thrust, isp_sum, n) \<Rightarrow> n)"

definition total_fuel :: "SpacecraftDesign \<Rightarrow> real" where
  "total_fuel d =
     (case propulsion_loop (dict_values (components d)) (0, 0, 0, 0) of
        (fuel_sum, total_thrust, isp_sum, n) \<Rightarrow> fuel_sum)"

text \<open>
  A fuel tank like \<open>BASIC_TANK\<close> that holds 100 kg of fuel, and the designs and research
  states of the scenarios evaluated below.
\<close>

definition SMALL_TANK :: ComponentSpec where
  "SMALL_TANK = BASIC_TANK\<lparr>kind := StorageComponent 10 100 ''FUEL''\<rparr>"

definition design_radio :: SpacecraftDesign where
  "design_radio = snd (add_component (new_design ''D'') BASIC_RADIO (pos3 0 0 0))"

definition design_engine :: SpacecraftDesign where
  "design_engine = snd (add_component (new_design ''D'') BASIC_ENGINE (pos3 0 0 0))"

definition design_tank_engine :: SpacecraftDesign where
  "design_tank_engine =
     snd (add_component (snd (add_component (new_design ''D'') SMALL_TANK (pos3 0 0 0)))
            BASIC_ENGINE (pos3 10 10 10))"

definition research_started_once :: ResearchSystem where
  "research_started_once = snd (start_research new_research_system ''BASIC_ROCKETRY'' 3)"

definition research_started_twice :: ResearchSystem where
  "research_started_twice = snd (start_research research_started_once ''BASIC_ROCKETRY'' 2)"

text \<open>
  The progress a project gains in one research tick, whether an \<open>ACTIVE\<close> project
  reaches 100 on this tick, and the project after the tick, in the specification's
  words.
\<close>

definition tick_increase :: "real \<Rightarrow> ResearchProject \<Rightarrow> real" where
  "tick_increase eff p =
     (real_of_int (scientists_assigned p) * eff) / real_of_int (research_time (technology p))"

definition completes :: "real \<Rightarrow> ResearchProject \<Rightarrow> bool" where
  "completes eff p = (status p = ''ACTIVE'' \<and> progress p + tick_increase eff p \<ge> 100)"

definition ticked :: "real \<Rightarrow> ResearchProject \<Rightarrow> ResearchProject" where
  "ticked eff p =
     (if status p = ''ACTIVE''
      then p\<lparr>progress := min 100 (progress p + tick_increase eff p)\<rparr> else p)"

text \<open>A research state one tick away from completing \<open>BASIC_ROCKETRY\<close>.\<close>

definition research_nearly_done :: ResearchSystem where
  "research_nearly_done =
     new_research_system
       \<lparr>active_projects :=
          [(''BASIC_ROCKETRY'',
            \<lparr>technology = BASIC_ROCKETRY, progress = 99, scientists_assigned = 5,
             status = ''ACTIVE''\<rparr>)],
        available_scientists := 5, research_points := 900\<rparr>"

section \<open>Evaluation on concrete inputs\<close>

lemmas design_eval =
  add_component_def remove_component_def check_collision_def components_overlap_def
  axis_apart_def update_statistics_def new_design_def pos3_def dict_values_def dict_has_def
  dict_del_def BASIC_RADIO_def BASIC_ENGINE_def BASIC_TANK_def SMALL_TANK_def
  str_nat.simps digit_char_def Let_def

lemmas research_eval =
  start_research_def new_research_system_def total_scientists_def is_available_def
  BASIC_ROCKETRY_def LIQUID_FUEL_def

section \<open>Collision rejection\<close>

text \<open>
  C1. The claim: a placement is rejected if and only if the candidate's box overlaps the
  box of a placed component on all three axes at once. Evaluated on the code: with a
  \<open>BASIC_RADIO\<close> (0.3 m wide) placed at the origin, a second one at \<open>x = 10\<close> is apart
  from it on the x axis, so the two boxes do not overlap on all three axes; yet
  \<open>add_component\<close> returns \<open>False\<close> and leaves the design as it was, because the loop
  of \<open>_components_overlap\<close> answers \<open>True\<close> at the first axis that overlaps (here y).
\<close>

theorem add_component_rejects_apart_boxes:
  "fst (add_component (new_design ''D'') BASIC_RADIO (pos3 0 0 0)) = Inr True
   \<and> axis_apart (comp_size BASIC_RADIO) (pos3 10 0 0) (comp_size BASIC_RADIO) (pos3 0 0 0) ''x''
       = Inr True
   \<and> \<not> boxes_overlap_all_axes (comp_size BASIC_RADIO) (pos3 10 0 0)
         (comp_size BASIC_RADIO) (pos3 0 0 0)
   \<and> add_component design_radio BASIC_RADIO (pos3 10 0 0) = (Inr False, design_radio)"
  by (simp add: design_eval design_radio_def boxes_overlap_all_axes_def)

section \<open>Exceptions out of the statistics\<close>

text \<open>
  C9. The claim: no operation raises; in particular \<open>add_component\<close> never raises for a
  catalog component at an accepted position. Evaluated on the code: after a
  \<open>BASIC_ENGINE\<close> at the origin, a \<open>BASIC_TANK\<close> at (10, 10, 10) passes the collision
  check, is stored, and \<open>_update_statistics\<close> then computes a dry mass of
  1500 - 10000 and calls \<open>math.log\<close> on a negative ratio: \<open>ValueError\<close>.
\<close>

theorem add_component_raises_on_catalog_tank:
  "fst (add_component (new_design ''D'') BASIC_ENGINE (pos3 0 0 0)) = Inr True
   \<and> check_collision design_engine BASIC_TANK (pos3 10 10 10) = Inr False
   \<and> fst (add_component design_engine BASIC_TANK (pos3 10 10 10)) = Inl ValueError
   \<and> map fst (components (snd (add_component design_engine BASIC_TANK (pos3 10 10 10))))
       = [''BASIC_ENGINE_0'', ''BASIC_TANK_1'']"
  by (simp add: design_eval design_engine_def)

section \<open>Delta-v\<close>

text \<open>
  C2. The claim: the \<open>delta_v\<close> of \<open>get_summary\<close> is zero whenever the design has no
  propulsion component or no fuel mass. Evaluated on the code: a tank with 100 kg of fuel
  and a \<open>BASIC_ENGINE\<close> give a delta-v of \<open>280 * 9.81 * ln (1500 / 1400)\<close>; removing
  the engine succeeds and leaves no propulsion component, and \<open>delta_v\<close> keeps that
  value, since \<open>_update_statistics\<close> resets every statistic except \<open>_delta_v\<close>.
\<close>

theorem delta_v_stale_after_engine_removed:
  "fst (remove_component design_tank_engine ''BASIC_ENGINE_1'') = Inr True
   \<and> map fst (components (snd (remove_component design_tank_engine ''BASIC_ENGINE_1'')))
       = [''BASIC_TANK_0'']
   \<and> num_engines (snd (remove_component design_tank_engine ''BASIC_ENGINE_1'')) = 0
   \<and> total_fuel (snd (remove_component design_tank_engine ''BASIC_ENGINE_1'')) = 100
   \<and> get_summary (snd (remove_component design_tank_engine ''BASIC_ENGINE_1'')) ''delta_v''
       = Some (280 * 9.81 * ln (15 / 14))
   \<and> get_summary (snd (remove_component design_tank_engine ''BASIC_ENGINE_1'')) ''delta_v''
       \<noteq> Some 0"
  by (simp add: design_eval design_tank_engine_def get_summary_def num_engines_def total_fuel_def)

section \<open>Conservation of scientists\<close>

text \<open>
  C10. The claim: in every reachable state the idle scientists and those assigned to the
  active projects add up to 10. Evaluated on the code: starting \<open>BASIC_ROCKETRY\<close> with 3
  scientists and starting it again with 2 are both accepted; the second project replaces
  the first in \<open>active_projects\<close> without returning its 3 scientists, and 7 remain.
\<close>

theorem scientists_lost_on_restart:
  "total_scientists new_research_system = 10
   \<and> fst (start_research new_research_system ''BASIC_ROCKETRY'' 3) = True
   \<and> fst (start_research research_started_once ''BASIC_ROCKETRY'' 2) = True
   \<and> available_scientists research_started_twice = 5
   \<and> map (\<lambda>kp. (fst kp, scientists_assigned (snd kp))) (active_projects research_started_twice)
       = [(''BASIC_ROCKETRY'', 2)]
   \<and> total_scientists research_started_twice = 7"
  by (simp add: research_eval research_started_once_def research_started_twice_def)

section \<open>Aggregate statistics\<close>

lemma power_output_filter:
  "sum_list (map power_output (filter is_power_component cs)) = sum_list (map power_output cs)"
  by (induction cs) (auto simp: power_output_def is_power_component_def split: component_kind.splits)

lemma base_stats_loop_sums:
  "base_stats_loop cs (m, co, pb, r) =
     (m + sum_list (map mass cs), co + sum_list (map cost cs),
      pb + sum_list (map power_output cs) - sum_list (map power_required cs),
      r * prod_list (map reliability cs))"
proof (induction cs arbitrary: m co pb r)
  case Nil
  show ?case by simp
next
  case (Cons c cs)
  show ?case
    by (cases "kind c") (simp_all add: Cons.IH power_output_def algebra_simps)
qed

lemma update_statistics_consistent:
  "update_statistics d = (r, d') \<Longrightarrow> aggregates_consistent d'"
  by (auto simp: update_statistics_def aggregates_consistent_def Let_def base_stats_loop_sums
      power_output_filter split: prod.splits if_splits)

lemma axis_apart_error: "axis_apart s1 p1 s2 p2 a = Inl e \<Longrightarrow> e = KeyError"
  by (auto simp: axis_apart_def split: option.splits if_splits)

lemma overlap_loop_error: "overlap_loop s1 p1 s2 p2 axes = Inl e \<Longrightarrow> e = KeyError"
  by (induction axes) (auto split: sum.splits if_splits dest: axis_apart_error)

lemma components_overlap_error: "components_overlap s1 p1 s2 p2 = Inl e \<Longrightarrow> e = KeyError"
  unfolding components_overlap_def by (rule overlap_loop_error)

lemma collision_loop_error: "collision_loop lay c pos cs = Inl e \<Longrightarrow> e = KeyError"
proof (induction cs)
  case Nil
  then show ?case by simp
next
  case (Cons a cs)
  obtain cid other where a: "a = (cid, other)" by (cases a)
  from Cons show ?case unfolding a
    by (auto split: option.splits sum.splits if_splits dest: components_overlap_error)
qed

lemma add_component_recomputed:
  assumes "fst (add_component d c pos) \<in> {Inr True, Inl ValueError, Inl ZeroDivisionError}"
  shows "aggregates_consistent (snd (add_component d c pos))"
  using assms
  by (auto simp: add_component_def check_collision_def Let_def
      split: sum.splits if_splits prod.splits
      dest: collision_loop_error update_statistics_consistent)

lemma remove_component_recomputed:
  assumes "fst (remove_component d k) \<in> {Inr True, Inl ValueError, Inl ZeroDivisionError}"
  shows "aggregates_consistent (snd (remove_component d k))"
  using assms
  by (auto simp: remove_component_def Let_def
      split: sum.splits if_splits prod.splits
      dest: update_statistics_consistent)

text \<open>
  C7. After \<open>add_component\<close> or \<open>remove_component\<close> has recomputed the statistics
  (the call returns \<open>True\<close>, or raises out of the delta-v part of
  \<open>_update_statistics\<close>, which runs after the four base statistics are written), the
  mass is the sum of the masses of the placed components, the cost the sum of their
  costs, the power balance the sum of \<open>power_output\<close> over the power components minus
  the sum of \<open>power_required\<close> over all components, and the reliability the product of
  the reliabilities, which is 1.0 when no component remains.
\<close>

theorem statistics_after_add_remove:
  "(fst (add_component d c pos) \<in> {Inr True, Inl ValueError, Inl ZeroDivisionError}
      \<longrightarrow> aggregates_consistent (snd (add_component d c pos)))
   \<and> (fst (remove_component d k) \<in> {Inr True, Inl ValueError, Inl ZeroDivisionError}
      \<longrightarrow> aggregates_consistent (snd (remove_component d k)))
   \<and> (fst (remove_component d k) = Inr True \<longrightarrow> components (snd (remove_component d k)) = []
      \<longrightarrow> stat_reliability (snd (remove_component d k)) = 1.0)"
proof (intro conjI impI)
  assume "fst (add_component d c pos) \<in> {Inr True, Inl ValueError, Inl ZeroDivisionError}"
  then show "aggregates_consistent (snd (add_component d c pos))"
    by (rule add_component_recomputed)
next
  assume "fst (remove_component d k) \<in> {Inr True, Inl ValueError, Inl ZeroDivisionError}"
  then show "aggregates_consistent (snd (remove_component d k))"
    by (rule remove_component_recomputed)
next
  assume a: "fst (remove_component d k) = Inr True"
    and e: "components (snd (remove_component d k)) = []"
  from a have "aggregates_consistent (snd (remove_component d k))"
    by (simp add: remove_component_recomputed)
  with e show "stat_reliability (snd (remove_component d k)) = 1.0"
    by (simp add: aggregates_consistent_def dict_values_def)
qed

theorem statistics_after_add_remove_witness:
  "fst (add_component design_radio BASIC_ENGINE (pos3 10 10 10)) = Inr True
   \<and> stat_mass (snd (add_component design_radio BASIC_ENGINE (pos3 10 10 10))) = 1005
   \<and> stat_cost (snd (add_component design_radio BASIC_ENGINE (pos3 10 10 10))) = 10300
   \<and> stat_power_balance (snd (add_component design_radio BASIC_ENGINE (pos3 10 10 10))) = - 10.2
   \<and> stat_reliability (snd (add_component design_radio BASIC_ENGINE (pos3 10 10 10))) = 0.99 * 0.95
   \<and> fst (remove_component design_radio ''BASIC_RADIO_0'') = Inr True
   \<and> aggregates_consistent (snd (remove_component design_radio ''BASIC_RADIO_0''))
   \<and> stat_reliability (snd (remove_component design_radio ''BASIC_RADIO_0'')) = 1"
proof -
  have a: "fst (add_component design_radio BASIC_ENGINE (pos3 10 10 10)) = Inr True"
    by (simp add: design_eval design_radio_def)
  have r: "fst (remove_component design_radio ''BASIC_RADIO_0'') = Inr True"
    by (simp add: design_eval design_radio_def)
  have e: "components (snd (remove_component design_radio ''BASIC_RADIO_0'')) = []"
    by (simp add: design_eval design_radio_def)
  have cs: "map snd (components (snd (add_component design_radio BASIC_ENGINE (pos3 10 10 10))))
      = [BASIC_RADIO, BASIC_ENGINE]"
    by (simp add: design_eval design_radio_def)
  note t = statistics_after_add_remove [of design_radio BASIC_ENGINE "pos3 10 10 10" "''BASIC_RADIO_0''"]
  from t a have "aggregates_consistent (snd (add_component design_radio BASIC_ENGINE (pos3 10 10 10)))"
    by simp
  then have stats: "stat_mass (snd (add_component design_radio BASIC_ENGINE (pos3 10 10 10))) = 1005
   \<and> stat_cost (snd (add_component design_radio BASIC_ENGINE (pos3 10 10 10))) = 10300
   \<and> stat_power_balance (snd (add_component design_radio BASIC_ENGINE (pos3 10 10 10))) = - 10.2
   \<and> stat_reliability (snd (add_component design_radio BASIC_ENGINE (pos3 10 10 10))) = 0.99 * 0.95"
    unfolding aggregates_consistent_def dict_values_def cs
    by (simp add: BASIC_RADIO_def BASIC_ENGINE_def is_power_component_def power_output_def)
  from t r e have "aggregates_consistent (snd (remove_component design_radio ''BASIC_RADIO_0''))
     \<and> stat_reliability (snd (remove_component design_radio ''BASIC_RADIO_0'')) = 1"
    by simp
  with a r stats show ?thesis by simp
qed

section \<open>Research progress\<close>

text \<open>
  C4. For a project with progress in [0, 100], non-negative scientists and efficiency
  and a positive research time, \<open>update_progress\<close> returns normally, never leaves the
  progress above 100, never decreases it while the status is \<open>ACTIVE\<close>, and leaves it
  unchanged when the status is \<open>PAUSED\<close> or \<open>COMPLETED\<close>.
\<close>

theorem update_progress_capped_monotone:
  assumes "0 \<le> progress p" and "progress p \<le> 100"
    and "0 \<le> scientists_assigned p" and "0 \<le> eff"
    and "0 < research_time (technology p)"
  shows "(\<exists>b. fst (update_progress p eff) = Inr b)
    \<and> progress (snd (update_progress p eff)) \<le> 100
    \<and> (status p = ''ACTIVE'' \<longrightarrow> progress p \<le> progress (snd (update_progress p eff)))
    \<and> (status p = ''PAUSED'' \<or> status p = ''COMPLETED''
          \<longrightarrow> progress (snd (update_progress p eff)) = progress p)"
proof -
  have inc: "0 \<le> (real_of_int (scientists_assigned p) * eff) / real_of_int (research_time (technology p))"
    using assms by simp
  show ?thesis
    using assms(1,2,5) inc
    by (auto simp: update_progress_def Let_def min_def)
qed

theorem update_progress_capped_monotone_witness:
  "progress (snd (update_progress
      \<lparr>technology = BASIC_ROCKETRY, progress = 99, scientists_assigned = 10, status = ''ACTIVE''\<rparr> 1)) = 100
   \<and> progress (snd (update_progress
      \<lparr>technology = BASIC_ROCKETRY, progress = 40, scientists_assigned = 10, status = ''ACTIVE''\<rparr> 1)) = 42
   \<and> progress (snd (update_progress
      \<lparr>technology = BASIC_ROCKETRY, progress = 40, scientists_assigned = 0, status = ''PAUSED''\<rparr> 1)) = 40"
  using update_progress_capped_monotone
      [of "\<lparr>technology = BASIC_ROCKETRY, progress = 99, scientists_assigned = 10, status = ''ACTIVE''\<rparr>" 1]
    update_progress_capped_monotone
      [of "\<lparr>technology = BASIC_ROCKETRY, progress = 40, scientists_assigned = 0, status = ''PAUSED''\<rparr>" 1]
  by (simp add: update_progress_def BASIC_ROCKETRY_def Let_def)

section \<open>Mission physics\<close>

text \<open>
  C6. One physics tick adds \<open>thrust * f_alt\<close> to the altitude, \<open>thrust * f_vel\<close> to the
  velocity and subtracts \<open>thrust * f_fuel\<close> from the fuel, with the factors
  (0.1, 0.05, 0.2) for stage 1, (0.05, 0.1, 0.1) for stage 2 and the stage-1 factors for
  any other stage; it then subtracts 0.01 from the velocity if the updated altitude is
  below 100, subtracts 0.01 from the battery, and adds 0.1 to the temperature if the
  thrust exceeds 50, the temperature otherwise becoming \<open>max 20 (temperature - 0.05)\<close>.
  Every other field is left as it was.
\<close>

theorem update_physics_tick:
  "update_physics_data m =
     (let (f_alt, f_vel, f_fuel) =
            (if stage m = 1 then (0.1, 0.05, 0.2)
             else if stage m = 2 then (0.05, 0.1, 0.1)
             else (0.1, 0.05, 0.2))
      in m\<lparr>altitude := altitude m + thrust m * f_alt,
           velocity := (if altitude m + thrust m * f_alt < 100
                        then velocity m + thrust m * f_vel - 0.01
                        else velocity m + thrust m * f_vel),
           fuel := fuel m - thrust m * f_fuel,
           battery := battery m - 0.01,
           temperature := (if thrust m > 50 then temperature m + 0.1
                           else max 20 (temperature m - 0.05))\<rparr>)"
  by (simp add: update_physics_data_def stage_factors_def Let_def)

section \<open>Mission abort\<close>

lemma log_event_fields [simp]:
  "mission_active (log_event msg lvl s) = mission_active s"
  "mission_data (log_event msg lvl s) = mission_data s"
  "mission_time (log_event msg lvl s) = mission_time s"
  "target_altitude (log_event msg lvl s) = target_altitude s"
  "target_velocity (log_event msg lvl s) = target_velocity s"
  "update_timer (log_event msg lvl s) = update_timer s"
  "systems (log_event msg lvl s) = systems s"
  "event_log (log_event msg lvl s) = event_log s @ [(msg, lvl)]"
  by (simp_all add: log_event_def)

lemma clear_trajectory_missing: "orbit_display_call ''clear_trajectory'' = Inl AttributeError"
  by (simp add: orbit_display_call_def orbit_display_methods_def)

lemma update_display_defined: "orbit_display_call ''update_display'' = Inr ()"
  by (simp add: orbit_display_call_def orbit_display_methods_def)

lemma abort_mission_active:
  assumes "mission_active s"
  shows "fst (abort_mission s) = Inl AttributeError
    \<and> \<not> mission_active (snd (abort_mission s))
    \<and> mission_data (snd (abort_mission s)) = create_default
    \<and> mission_time (snd (abort_mission s)) = 0
    \<and> list_all snd (systems (snd (abort_mission s)))
    \<and> event_log (snd (abort_mission s)) = event_log s @ [(''MISSION ABORT COMMANDED'', ''ERROR'')]"
  using assms
  by (simp add: abort_mission_def reset_mission_def clear_trajectory_missing Let_def
      list_all_iff)

lemma check_status_abort:
  assumes "mission_active s"
    and "fuel (mission_data s) \<le> 0 \<or> temperature (mission_data s) > 100"
  shows "fst (check_mission_status s) = Inl AttributeError
    \<and> \<not> mission_active (snd (check_mission_status s))
    \<and> mission_data (snd (check_mission_status s)) = create_default
    \<and> mission_time (snd (check_mission_status s)) = 0
    \<and> list_all snd (systems (snd (check_mission_status s)))
    \<and> event_log (snd (check_mission_status s)) =
        event_log s
          @ (if fuel (mission_data s) \<le> 0 then [(''CRITICAL: Fuel depleted'', ''ERROR'')]
             else (if battery (mission_data s) \<le> 10
                   then [(''WARNING: Low battery'', ''WARNING'')] else [])
                  @ [(''CRITICAL: Temperature critical'', ''ERROR'')])
          @ [(''MISSION ABORT COMMANDED'', ''ERROR'')]"
proof (cases "fuel (mission_data s) \<le> 0")
  case True
  let ?s1 = "log_event ''CRITICAL: Fuel depleted'' ''ERROR'' s"
  have c: "check_mission_status s = abort_mission ?s1"
    using True by (simp add: check_mission_status_def)
  have "mission_active ?s1" using assms(1) by simp
  from abort_mission_active [OF this] show ?thesis
    unfolding c using True by simp
next
  case False
  with assms(2) have hot: "temperature (mission_data s) > 100" by simp
  let ?s1 = "if battery (mission_data s) \<le> 10
             then log_event ''WARNING: Low battery'' ''WARNING'' s else s"
  let ?s2 = "log_event ''CRITICAL: Temperature critical'' ''ERROR'' ?s1"
  have c: "check_mission_status s = abort_mission ?s2"
    using False hot by (simp add: check_mission_status_def Let_def)
  have "mission_active ?s2" using assms(1) by simp
  from abort_mission_active [OF this] show ?thesis
    unfolding c using False by simp
qed

lemma check_status_continue:
  assumes "\<not> (fuel (mission_data s) \<le> 0 \<or> temperature (mission_data s) > 100)"
  shows "check_mission_status s =
     (Inr (),
      s\<lparr>event_log := event_log s
          @ (if battery (mission_data s) \<le> 10
             then [(''WARNING: Low battery'', ''WARNING'')] else [])
          @ (if \<bar>altitude (mission_data s) - target_altitude s\<bar> < 10 \<and>
                \<bar>velocity (mission_data s) - target_velocity s\<bar> < 0.1
             then [(''SUCCESS: Target orbit achieved!'', ''SUCCESS'')] else [])\<rparr>)"
  using assms by (simp add: check_mission_status_def Let_def log_event_def)

lemma check_anomalies_fields [simp]:
  "mission_active (check_anomalies rnd pick s) = mission_active s"
  "mission_data (check_anomalies rnd pick s) = mission_data s"
  by (simp_all add: check_anomalies_def split: prod.splits)

text \<open>
  C5. On a mission tick the mission is active when the status check runs. The check
  then aborts (the mission becomes inactive, and mission data, mission time and the
  subsystem flags are reset) exactly when \<open>fuel \<le> 0\<close> or \<open>temperature > 100\<close>. On an
  abort the log has received the critical event (after the low-battery warning, when
  the abort is for temperature and the battery is at most 10) and
  \<open>MISSION ABORT COMMANDED\<close>, and \<open>reset_mission\<close> leaves with \<open>AttributeError\<close> at
  \<open>orbit_display.clear_trajectory()\<close>, a method \<open>OrbitDisplay\<close> does not define, so
  the log is not cleared. In every other state the check returns normally and changes
  nothing but the log: it appends the low-battery warning when the battery is at most
  10 and the success event when altitude and velocity are in the target window, and
  nothing else. For the whole tick: \<open>update_mission\<close> leaves an active mission inactive
  exactly when the fuel or the temperature computed by the physics update of that tick
  meets the condition, and raises exactly then.
\<close>

theorem mission_abort_iff:
  assumes "mission_active s"
  shows "((\<not> mission_active (snd (check_mission_status s)))
            = (fuel (mission_data s) \<le> 0 \<or> temperature (mission_data s) > 100))
    \<and> (\<not> mission_active (snd (check_mission_status s)) \<longrightarrow>
          mission_data (snd (check_mission_status s)) = create_default
          \<and> mission_time (snd (check_mission_status s)) = 0
          \<and> list_all snd (systems (snd (check_mission_status s)))
          \<and> fst (check_mission_status s) = Inl AttributeError
          \<and> event_log (snd (check_mission_status s)) =
              event_log s
                @ (if fuel (mission_data s) \<le> 0
                   then [(''CRITICAL: Fuel depleted'', ''ERROR'')]
                   else (if battery (mission_data s) \<le> 10
                         then [(''WARNING: Low battery'', ''WARNING'')] else [])
                        @ [(''CRITICAL: Temperature critical'', ''ERROR'')])
                @ [(''MISSION ABORT COMMANDED'', ''ERROR'')])
    \<and> (mission_active (snd (check_mission_status s)) \<longrightarrow>
          check_mission_status s =
            (Inr (),
             s\<lparr>event_log := event_log s
                 @ (if battery (mission_data s) \<le> 10
                    then [(''WARNING: Low battery'', ''WARNING'')] else [])
                 @ (if \<bar>altitude (mission_data s) - target_altitude s\<bar> < 10 \<and>
                       \<bar>velocity (mission_data s) - target_velocity s\<bar> < 0.1
                    then [(''SUCCESS: Target orbit achieved!'', ''SUCCESS'')] else [])\<rparr>))
    \<and> ((\<not> mission_active (snd (update_mission rnd pick s)))
            = (fuel (update_physics_data (mission_data s)) \<le> 0
               \<or> temperature (update_physics_data (mission_data s)) > 100))
    \<and> fst (update_mission rnd pick s)
         = (if fuel (update_physics_data (mission_data s)) \<le> 0
               \<or> temperature (update_physics_data (mission_data s)) > 100
            then Inl AttributeError else Inr ())"
proof -
  let ?c = "fuel (mission_data s) \<le> 0 \<or> temperature (mission_data s) > 100"
  have stay: "mission_active (snd (check_mission_status s))" if "\<not> ?c"
    unfolding check_status_continue [OF that] using assms by simp
  have iff: "(\<not> mission_active (snd (check_mission_status s))) = ?c"
    using check_status_abort [OF assms] stay by blast
  have reset: "\<not> mission_active (snd (check_mission_status s)) \<longrightarrow>
          mission_data (snd (check_mission_status s)) = create_default
          \<and> mission_time (snd (check_mission_status s)) = 0
          \<and> list_all snd (systems (snd (check_mission_status s)))
          \<and> fst (check_mission_status s) = Inl AttributeError
          \<and> event_log (snd (check_mission_status s)) =
              event_log s
                @ (if fuel (mission_data s) \<le> 0
                   then [(''CRITICAL: Fuel depleted'', ''ERROR'')]
                   else (if battery (mission_data s) \<le> 10
                         then [(''WARNING: Low battery'', ''WARNING'')] else [])
                        @ [(''CRITICAL: Temperature critical'', ''ERROR'')])
                @ [(''MISSION ABORT COMMANDED'', ''ERROR'')]"
    using iff check_status_abort [OF assms] by blast
  have cont: "mission_active (snd (check_mission_status s)) \<longrightarrow>
          check_mission_status s =
            (Inr (),
             s\<lparr>event_log := event_log s
                 @ (if battery (mission_data s) \<le> 10
                    then [(''WARNING: Low battery'', ''WARNING'')] else [])
                 @ (if \<bar>altitude (mission_data s) - target_altitude s\<bar> < 10 \<and>
                       \<bar>velocity (mission_data s) - target_velocity s\<bar> < 0.1
                    then [(''SUCCESS: Target orbit achieved!'', ''SUCCESS'')] else [])\<rparr>)"
    using iff check_status_continue [of s] by blast
  let ?s3 = "check_anomalies rnd pick (update_physics (s\<lparr>mission_time := mission_time s + 1\<rparr>))"
  let ?c3 = "fuel (update_physics_data (mission_data s)) \<le> 0
               \<or> temperature (update_physics_data (mission_data s)) > 100"
  have act3: "mission_active ?s3" using assms by (simp add: update_physics_def)
  have data3: "mission_data ?s3 = update_physics_data (mission_data s)"
    by (simp add: update_physics_def)
  have um: "update_mission rnd pick s =
      (case check_mission_status ?s3 of
         (Inl e, s4) \<Rightarrow> (Inl e, s4)
       | (Inr u', s4) \<Rightarrow>
           (Inr (),
            if mission_active s4
            then s4\<lparr>update_timer := True, tick_pending := True\<rparr> else s4))"
    using assms by (simp add: update_mission_def update_display_defined Let_def)
  have tick: "(\<not> mission_active (snd (update_mission rnd pick s))) = ?c3
      \<and> fst (update_mission rnd pick s) = (if ?c3 then Inl AttributeError else Inr ())"
  proof (cases ?c3)
    case True
    then have "fuel (mission_data ?s3) \<le> 0 \<or> temperature (mission_data ?s3) > 100"
      unfolding data3 .
    from check_status_abort [OF act3 this]
    have "fst (check_mission_status ?s3) = Inl AttributeError"
      and "\<not> mission_active (snd (check_mission_status ?s3))" by blast+
    then obtain s4 where "check_mission_status ?s3 = (Inl AttributeError, s4)"
      and "\<not> mission_active s4"
      by (cases "check_mission_status ?s3") auto
    then have "fst (update_mission rnd pick s) = Inl AttributeError"
      and "\<not> mission_active (snd (update_mission rnd pick s))"
      unfolding um by simp_all
    with True show ?thesis by simp
  next
    case False
    then have "\<not> (fuel (mission_data ?s3) \<le> 0 \<or> temperature (mission_data ?s3) > 100)"
      unfolding data3 .
    from check_status_continue [OF this] act3
    have "fst (update_mission rnd pick s) = Inr ()"
      and "mission_active (snd (update_mission rnd pick s))"
      unfolding um by simp_all
    with False show ?thesis by simp
  qed
  from iff reset cont tick show ?thesis by blast
qed

theorem mission_abort_iff_witness:
  "\<not> mission_active (snd (check_mission_status
        (new_controller\<lparr>mission_active := True, mission_data := create_default\<lparr>fuel := 0\<rparr>\<rparr>)))
   \<and> fst (check_mission_status
        (new_controller\<lparr>mission_active := True, mission_data := create_default\<lparr>fuel := 0\<rparr>\<rparr>))
       = Inl AttributeError
   \<and> event_log (snd (check_mission_status
        (new_controller\<lparr>mission_active := True, mission_data := create_default\<lparr>fuel := 0\<rparr>\<rparr>)))
       = [(''CRITICAL: Fuel depleted'', ''ERROR''), (''MISSION ABORT COMMANDED'', ''ERROR'')]
   \<and> \<not> mission_active (snd (check_mission_status
        (new_controller\<lparr>mission_active := True,
           mission_data := create_default\<lparr>temperature := 100.1\<rparr>\<rparr>)))
   \<and> mission_active (snd (check_mission_status
        (new_controller\<lparr>mission_active := True,
           mission_data := create_default\<lparr>battery := 5, altitude := 300, velocity := 7.8\<rparr>\<rparr>)))
   \<and> event_log (snd (check_mission_status
        (new_controller\<lparr>mission_active := True,
           mission_data := create_default\<lparr>battery := 5, altitude := 300, velocity := 7.8\<rparr>\<rparr>)))
       = [(''WARNING: Low battery'', ''WARNING''),
          (''SUCCESS: Target orbit achieved!'', ''SUCCESS'')]"
proof -
  let ?a = "new_controller\<lparr>mission_active := True, mission_data := create_default\<lparr>fuel := 0\<rparr>\<rparr>"
  let ?b = "new_controller\<lparr>mission_active := True,
           mission_data := create_default\<lparr>temperature := 100.1\<rparr>\<rparr>"
  let ?c = "new_controller\<lparr>mission_active := True,
           mission_data := create_default\<lparr>battery := 5, altitude := 300, velocity := 7.8\<rparr>\<rparr>"
  have a: "mission_active ?a" "fuel (mission_data ?a) \<le> 0" "event_log ?a = []"
    by (simp_all add: new_controller_def create_default_def)
  have b: "mission_active ?b" "temperature (mission_data ?b) > 100"
    by (simp_all add: new_controller_def create_default_def)
  have c: "mission_active ?c"
    "\<not> (fuel (mission_data ?c) \<le> 0 \<or> temperature (mission_data ?c) > 100)"
    "battery (mission_data ?c) \<le> 10"
    "\<bar>altitude (mission_data ?c) - target_altitude ?c\<bar> < 10 \<and>
     \<bar>velocity (mission_data ?c) - target_velocity ?c\<bar> < 0.1"
    "event_log ?c = []"
    by (simp_all add: new_controller_def create_default_def)
  from mission_abort_iff [OF a(1), of 0 0] a(2,3)
  have ra: "\<not> mission_active (snd (check_mission_status ?a))
     \<and> fst (check_mission_status ?a) = Inl AttributeError
     \<and> event_log (snd (check_mission_status ?a))
         = [(''CRITICAL: Fuel depleted'', ''ERROR''), (''MISSION ABORT COMMANDED'', ''ERROR'')]"
    by simp
  from mission_abort_iff [OF b(1), of 0 0] b(2)
  have rb: "\<not> mission_active (snd (check_mission_status ?b))" by simp
  from mission_abort_iff [OF c(1), of 0 0] c(2)
  have rc1: "mission_active (snd (check_mission_status ?c))" by blast
  with mission_abort_iff [OF c(1), of 0 0]
  have "check_mission_status ?c =
            (Inr (),
             ?c\<lparr>event_log := event_log ?c
                 @ (if battery (mission_data ?c) \<le> 10
                    then [(''WARNING: Low battery'', ''WARNING'')] else [])
                 @ (if \<bar>altitude (mission_data ?c) - target_altitude ?c\<bar> < 10 \<and>
                       \<bar>velocity (mission_data ?c) - target_velocity ?c\<bar> < 0.1
                    then [(''SUCCESS: Target orbit achieved!'', ''SUCCESS'')] else [])\<rparr>)"
    by blast
  then have rc2: "event_log (snd (check_mission_status ?c))
       = [(''WARNING: Low battery'', ''WARNING''),
          (''SUCCESS: Target orbit achieved!'', ''SUCCESS'')]"
    using c(3,4,5) by simp
  from ra rb rc1 rc2 show ?thesis by blast
qed

section \<open>Starting research\<close>

lemma map_of_dict_set_same [simp]: "map_of (dict_set k v d) k = Some v"
  by (induction d) auto

lemma map_of_dict_set_other [simp]: "k' \<noteq> k \<Longrightarrow> map_of (dict_set k v d) k' = map_of d k'"
  by (induction d) auto

lemma is_available_iff:
  "is_available t researched = (\<forall>p \<in> set (prerequisites t). p \<in> set researched)"
  by (cases "prerequisites t") (auto simp: is_available_def list_all_iff)

lemma start_research_unknown:
  "map_of (technologies s) tid = None \<Longrightarrow> start_research s tid scientists = (False, s)"
  by (simp add: start_research_def)

lemma start_research_rejected:
  assumes "map_of (technologies s) tid = Some tech"
    and "(\<exists>p \<in> set (prerequisites tech). p \<notin> set (researched_technologies s))
          \<or> tid \<in> set (researched_technologies s)
          \<or> scientists > available_scientists s
          \<or> tech_cost tech > research_points s"
  shows "start_research s tid scientists = (False, s)"
  using assms(2) unfolding start_research_def assms(1) by (auto simp: is_available_iff)

lemma start_research_accepted:
  assumes "map_of (technologies s) tid = Some tech"
    and "\<forall>p \<in> set (prerequisites tech). p \<in> set (researched_technologies s)"
    and "tid \<notin> set (researched_technologies s)"
    and "scientists \<le> available_scientists s"
    and "tech_cost tech \<le> research_points s"
  shows "start_research s tid scientists =
    (True,
     s\<lparr>active_projects :=
          dict_set tid
            \<lparr>technology = tech, progress = 0, scientists_assigned = scientists,
             status = ''ACTIVE''\<rparr>
            (active_projects s),
       available_scientists := available_scientists s - scientists,
       research_points := research_points s - tech_cost tech\<rparr>)"
  using assms(2-) unfolding start_research_def assms(1) by (simp add: is_available_iff)

text \<open>
  C3. \<open>start_research\<close> returns \<open>False\<close> and leaves the whole system unchanged when
  the technology id is unknown, a prerequisite is not researched, the technology is
  already researched, more scientists are requested than are available, or the cost
  exceeds the research points. When all conditions hold it returns \<open>True\<close>, stores under
  the id an \<open>ACTIVE\<close> project at progress 0 with the given scientists, leaves the
  other projects alone, and subtracts the scientists from the available pool and the
  cost from the research points.
\<close>

theorem start_research_validates:
  "(map_of (technologies s) tid = None
      \<longrightarrow> start_research s tid scientists = (False, s))
   \<and> (\<forall>tech. map_of (technologies s) tid = Some tech \<longrightarrow>
        ((\<exists>p \<in> set (prerequisites tech). p \<notin> set (researched_technologies s))
          \<or> tid \<in> set (researched_technologies s)
          \<or> scientists > available_scientists s
          \<or> tech_cost tech > research_points s
         \<longrightarrow> start_research s tid scientists = (False, s))
        \<and> ((\<forall>p \<in> set (prerequisites tech). p \<in> set (researched_technologies s))
            \<and> tid \<notin> set (researched_technologies s)
            \<and> scientists \<le> available_scientists s
            \<and> tech_cost tech \<le> research_points s
         \<longrightarrow> fst (start_research s tid scientists) = True
             \<and> map_of (active_projects (snd (start_research s tid scientists))) tid
                 = Some \<lparr>technology = tech, progress = 0, scientists_assigned = scientists,
                          status = ''ACTIVE''\<rparr>
             \<and> (\<forall>k. k \<noteq> tid \<longrightarrow>
                   map_of (active_projects (snd (start_research s tid scientists))) k
                     = map_of (active_projects s) k)
             \<and> available_scientists (snd (start_research s tid scientists))
                 = available_scientists s - scientists
             \<and> research_points (snd (start_research s tid scientists))
                 = research_points s - tech_cost tech
             \<and> researched_technologies (snd (start_research s tid scientists))
                 = researched_technologies s
             \<and> technologies (snd (start_research s tid scientists)) = technologies s
             \<and> efficiency (snd (start_research s tid scientists)) = efficiency s))"
proof -
  have accepted: "fst (start_research s tid scientists) = True
             \<and> map_of (active_projects (snd (start_research s tid scientists))) tid
                 = Some \<lparr>technology = tech, progress = 0, scientists_assigned = scientists,
                          status = ''ACTIVE''\<rparr>
             \<and> (\<forall>k. k \<noteq> tid \<longrightarrow>
                   map_of (active_projects (snd (start_research s tid scientists))) k
                     = map_of (active_projects s) k)
             \<and> available_scientists (snd (start_research s tid scientists))
                 = available_scientists s - scientists
             \<and> research_points (snd (start_research s tid scientists))
                 = research_points s - tech_cost tech
             \<and> researched_technologies (snd (start_research s tid scientists))
                 = researched_technologies s
             \<and> technologies (snd (start_research s tid scientists)) = technologies s
             \<and> efficiency (snd (start_research s tid scientists)) = efficiency s"
    if "map_of (technologies s) tid = Some tech"
      and "(\<forall>p \<in> set (prerequisites tech). p \<in> set (researched_technologies s))
            \<and> tid \<notin> set (researched_technologies s)
            \<and> scientists \<le> available_scientists s
            \<and> tech_cost tech \<le> research_points s"
    for tech
    using that by (simp add: start_research_accepted)
  show ?thesis
    using start_research_unknown [of s tid scientists]
      start_research_rejected [of s tid _ scientists] accepted
    by blast
qed

theorem start_research_validates_witness:
  "start_research new_research_system ''WARP_DRIVE'' 1 = (False, new_research_system)
   \<and> start_research new_research_system ''LIQUID_FUEL'' 1 = (False, new_research_system)
   \<and> start_research new_research_system ''BASIC_ROCKETRY'' 11 = (False, new_research_system)
   \<and> fst (start_research new_research_system ''BASIC_ROCKETRY'' 4) = True
   \<and> available_scientists (snd (start_research new_research_system ''BASIC_ROCKETRY'' 4)) = 6
   \<and> research_points (snd (start_research new_research_system ''BASIC_ROCKETRY'' 4)) = 900
   \<and> map_of (active_projects (snd (start_research new_research_system ''BASIC_ROCKETRY'' 4)))
        ''BASIC_ROCKETRY''
       = Some \<lparr>technology = BASIC_ROCKETRY, progress = 0, scientists_assigned = 4,
                status = ''ACTIVE''\<rparr>"
proof -
  have t0: "map_of (technologies new_research_system) ''WARP_DRIVE'' = None"
    by (simp add: new_research_system_def)
  have t1: "map_of (technologies new_research_system) ''LIQUID_FUEL'' = Some LIQUID_FUEL"
    by (simp add: new_research_system_def)
  have t2: "map_of (technologies new_research_system) ''BASIC_ROCKETRY'' = Some BASIC_ROCKETRY"
    by (simp add: new_research_system_def)
  have a: "start_research new_research_system ''WARP_DRIVE'' 1 = (False, new_research_system)"
    using start_research_validates [of new_research_system "''WARP_DRIVE''" 1] t0 by blast
  have p: "\<exists>p \<in> set (prerequisites LIQUID_FUEL). p \<notin> set (researched_technologies new_research_system)"
    by (simp add: LIQUID_FUEL_def new_research_system_def)
  have b: "start_research new_research_system ''LIQUID_FUEL'' 1 = (False, new_research_system)"
    using start_research_validates [of new_research_system "''LIQUID_FUEL''" 1] t1 p by blast
  have q: "11 > available_scientists new_research_system"
    by (simp add: new_research_system_def)
  have c: "start_research new_research_system ''BASIC_ROCKETRY'' 11 = (False, new_research_system)"
    using start_research_validates [of new_research_system "''BASIC_ROCKETRY''" 11] t2 q by blast
  have ok: "(\<forall>p \<in> set (prerequisites BASIC_ROCKETRY). p \<in> set (researched_technologies new_research_system))
            \<and> ''BASIC_ROCKETRY'' \<notin> set (researched_technologies new_research_system)
            \<and> 4 \<le> available_scientists new_research_system
            \<and> tech_cost BASIC_ROCKETRY \<le> research_points new_research_system"
    by (simp add: BASIC_ROCKETRY_def new_research_system_def)
  have d: "fst (start_research new_research_system ''BASIC_ROCKETRY'' 4) = True
   \<and> available_scientists (snd (start_research new_research_system ''BASIC_ROCKETRY'' 4))
       = available_scientists new_research_system - 4
   \<and> research_points (snd (start_research new_research_system ''BASIC_ROCKETRY'' 4))
       = research_points new_research_system - tech_cost BASIC_ROCKETRY
   \<and> map_of (active_projects (snd (start_research new_research_system ''BASIC_ROCKETRY'' 4)))
        ''BASIC_ROCKETRY''
       = Some \<lparr>technology = BASIC_ROCKETRY, progress = 0, scientists_assigned = 4,
                status = ''ACTIVE''\<rparr>"
    using start_research_validates [of new_research_system "''BASIC_ROCKETRY''" 4] t2 ok by blast
  have v: "available_scientists new_research_system - 4 = 6"
    "research_points new_research_system - tech_cost BASIC_ROCKETRY = 900"
    by (simp_all add: BASIC_ROCKETRY_def new_research_system_def)
  from a b c d show ?thesis unfolding v by blast
qed

section \<open>The research tick\<close>

lemma update_progress_closed:
  assumes "status p = ''ACTIVE'' \<longrightarrow> 0 < research_time (technology p)"
  shows "update_progress p eff =
     (Inr (completes eff p),
      if completes eff p then (ticked eff p)\<lparr>status := ''COMPLETED''\<rparr> else ticked eff p)"
  using assms
  by (auto simp: update_progress_def completes_def ticked_def tick_increase_def Let_def min_def)

lemma ticked_scientists [simp]: "scientists_assigned (ticked eff p) = scientists_assigned p"
  by (simp add: ticked_def)

lemma research_loop_closed:
  assumes "list_all (\<lambda>kp. status (snd kp) = ''ACTIVE'' \<longrightarrow> 0 < research_time (technology (snd kp))) ps"
  shows "research_loop eff ps (visited, completed, researched, avail) =
     (Inr (),
      (visited @ map (\<lambda>kp. (fst kp, snd (update_progress (snd kp) eff))) ps,
       completed @ map fst (filter (\<lambda>kp. completes eff (snd kp)) ps),
       fold (\<lambda>k r. if k \<notin> set r then r @ [k] else r)
         (map fst (filter (\<lambda>kp. completes eff (snd kp)) ps)) researched,
       avail + sum_list (map (\<lambda>kp. scientists_assigned (snd kp))
                 (filter (\<lambda>kp. completes eff (snd kp)) ps))))"
  using assms
proof (induction ps arbitrary: visited completed researched avail)
  case Nil
  show ?case by simp
next
  case (Cons kp ps)
  obtain k p where kp: "kp = (k, p)" by (cases kp)
  from Cons.prems have p: "status p = ''ACTIVE'' \<longrightarrow> 0 < research_time (technology p)"
    and rest: "list_all (\<lambda>kp. status (snd kp) = ''ACTIVE'' \<longrightarrow> 0 < research_time (technology (snd kp))) ps"
    by (simp_all add: kp)
  show ?case
    unfolding kp
    by (simp add: update_progress_closed [OF p] Cons.IH [OF rest])
qed

lemma delete_completed_filter:
  "delete_completed ks d = filter (\<lambda>kp. fst kp \<notin> set ks) d"
proof (induction ks arbitrary: d)
  case Nil
  show ?case by simp
next
  case (Cons k ks)
  have "filter (\<lambda>kp. fst kp \<noteq> k) d = d" if "k \<notin> fst ` set d"
    using that by (induction d) auto
  then have "(if dict_has k d then dict_del k d else d) = filter (\<lambda>kp. fst kp \<noteq> k) d"
    by (simp add: dict_has_def dict_del_def)
  then show ?case by (simp add: Cons.IH conj_commute)
qed

lemma distinct_key_filter:
  assumes "distinct (map fst ps)" and "kp \<in> set ps"
  shows "(fst kp \<in> set (map fst (filter F ps))) = F kp"
proof
  assume "fst kp \<in> set (map fst (filter F ps))"
  then obtain kp' where kp': "kp' \<in> set ps" "F kp'" "fst kp' = fst kp" by auto
  from assms kp'(1,3) have "kp' = kp"
    by (metis eq_key_imp_eq_value prod.collapse)
  with kp'(2) show "F kp" by simp
next
  assume "F kp"
  with assms(2) show "fst kp \<in> set (map fst (filter F ps))" by force
qed

lemma filter_completed_projects:
  assumes "distinct (map fst ps)"
  shows "filter (\<lambda>kp. fst kp \<notin> set (map fst (filter F ps))) (map (\<lambda>kp. (fst kp, g (snd kp))) ps)
       = map (\<lambda>kp. (fst kp, g (snd kp))) (filter (\<lambda>kp. \<not> F kp) ps)"
proof -
  have "filter (\<lambda>kp. fst kp \<notin> set (map fst (filter F ps))) (map (\<lambda>kp. (fst kp, g (snd kp))) ps)
      = map (\<lambda>kp. (fst kp, g (snd kp))) (filter (\<lambda>kp. fst kp \<notin> set (map fst (filter F ps))) ps)"
    by (simp add: filter_map comp_def)
  also have "filter (\<lambda>kp. fst kp \<notin> set (map fst (filter F ps))) ps = filter (\<lambda>kp. \<not> F kp) ps"
    using distinct_key_filter [OF assms] by (intro filter_cong) blast+
  finally show ?thesis .
qed

lemma delete_completed_projects:
  assumes "distinct (map fst ps)"
  shows "delete_completed (map fst (filter F ps)) (map (\<lambda>kp. (fst kp, g (snd kp))) ps)
       = map (\<lambda>kp. (fst kp, g (snd kp))) (filter (\<lambda>kp. \<not> F kp) ps)"
  unfolding delete_completed_filter by (rule filter_completed_projects [OF assms])

lemma fold_append_new:
  "distinct ks \<Longrightarrow>
     fold (\<lambda>k r. if k \<notin> set r then r @ [k] else r) ks r = r @ filter (\<lambda>k. k \<notin> set r) ks"
proof (induction ks arbitrary: r)
  case Nil
  show ?case by simp
next
  case (Cons k ks)
  then have d: "distinct ks" and k: "k \<notin> set ks" by simp_all
  have "filter (\<lambda>x. x \<noteq> k \<and> x \<notin> set r) ks = filter (\<lambda>x. x \<notin> set r) ks"
    by (rule filter_cong) (use k in auto)
  then show ?case by (simp add: Cons.IH [OF d])
qed

lemma ticked_not_completed:
  assumes "list_all (\<lambda>kp. status (snd kp) = ''ACTIVE'' \<longrightarrow> 0 < research_time (technology (snd kp))) ps"
  shows "map (\<lambda>kp. (fst kp, snd (update_progress (snd kp) eff)))
           (filter (\<lambda>kp. \<not> completes eff (snd kp)) ps)
       = map (\<lambda>kp. (fst kp, ticked eff (snd kp))) (filter (\<lambda>kp. \<not> completes eff (snd kp)) ps)"
  using assms by (intro map_cong refl) (auto simp: list_all_iff update_progress_closed)

lemma update_research_closed:
  assumes d: "distinct (map fst (active_projects s))"
    and ok: "list_all (\<lambda>kp. status (snd kp) = ''ACTIVE'' \<longrightarrow> 0 < research_time (technology (snd kp)))
        (active_projects s)"
  shows "update_research s =
     (Inr (map fst (filter (\<lambda>kp. completes (efficiency s) (snd kp)) (active_projects s))),
      s\<lparr>active_projects :=
           map (\<lambda>kp. (fst kp, ticked (efficiency s) (snd kp)))
             (filter (\<lambda>kp. \<not> completes (efficiency s) (snd kp)) (active_projects s)),
        researched_technologies :=
           researched_technologies s @
             filter (\<lambda>k. k \<notin> set (researched_technologies s))
               (map fst (filter (\<lambda>kp. completes (efficiency s) (snd kp)) (active_projects s))),
        available_scientists :=
           available_scientists s +
             sum_list (map (\<lambda>kp. scientists_assigned (snd kp))
               (filter (\<lambda>kp. completes (efficiency s) (snd kp)) (active_projects s)))\<rparr>)"
proof -
  have dk: "distinct (map fst (filter (\<lambda>kp. completes (efficiency s) (snd kp)) (active_projects s)))"
    using d by (rule distinct_map_filter)
  show ?thesis
    unfolding update_research_def research_loop_closed [OF ok]
    by (simp add: fold_append_new [OF dk] ticked_not_completed [OF ok]
        delete_completed_projects [OF d, where g = "\<lambda>p. snd (update_progress p (efficiency s))"])
qed

lemma map_of_map_filter:
  assumes "distinct (map fst ps)" and "(k, p) \<in> set ps"
  shows "map_of (map (\<lambda>kp. (fst kp, g (snd kp))) (filter Q ps)) k
       = (if Q (k, p) then Some (g p) else None)"
  using assms
proof (induction ps)
  case Nil
  then show ?case by simp
next
  case (Cons a ps)
  show ?case
  proof (cases "a = (k, p)")
    case True
    with Cons.prems(1) have "k \<notin> fst ` set ps" by auto
    then have "map_of (map (\<lambda>kp. (fst kp, g (snd kp))) (filter Q ps)) k = None"
      by (force simp: map_of_eq_None_iff)
    with True show ?thesis by simp
  next
    case False
    with Cons.prems have in_ps: "(k, p) \<in> set ps" and d: "distinct (map fst ps)"
      by simp_all
    from in_ps have "k \<in> fst ` set ps" by force
    with Cons.prems(1) have "fst a \<noteq> k" by auto
    with Cons.IH [OF d in_ps] show ?thesis by simp
  qed
qed

text \<open>
  C8. In a system whose \<open>ACTIVE\<close> projects all have a positive research time (the
  keys of \<open>active_projects\<close> are distinct, as those of a dictionary are), a research
  tick returns normally and, for every \<open>ACTIVE\<close> project, raises its progress by
  exactly \<open>(scientists_assigned * efficiency) / research_time\<close>, capped at 100. A project
  that stays below 100 remains in \<open>active_projects\<close> with the new progress. On the tick
  where the progress reaches 100 the status becomes \<open>COMPLETED\<close>, the project is
  removed from \<open>active_projects\<close>, its id is reported and is in the researched list
  (appended there unless already present), and the scientists of the completed
  projects are added to the available pool.
\<close>

theorem research_tick:
  assumes "distinct (map fst (active_projects s))"
    and "\<forall>kp \<in> set (active_projects s).
           status (snd kp) = ''ACTIVE'' \<longrightarrow> 0 < research_time (technology (snd kp))"
    and "(k, p) \<in> set (active_projects s)"
    and "status p = ''ACTIVE''"
  shows "progress (snd (update_progress p (efficiency s)))
           = min 100 (progress p + tick_increase (efficiency s) p)
    \<and> (\<not> completes (efficiency s) p \<longrightarrow>
          map_of (active_projects (snd (update_research s))) k
            = Some (p\<lparr>progress := progress p + tick_increase (efficiency s) p\<rparr>))
    \<and> (completes (efficiency s) p \<longrightarrow>
          update_progress p (efficiency s)
            = (Inr True, p\<lparr>progress := 100, status := ''COMPLETED''\<rparr>)
          \<and> map_of (active_projects (snd (update_research s))) k = None
          \<and> k \<in> set (researched_technologies (snd (update_research s)))
          \<and> (\<exists>done. fst (update_research s) = Inr done \<and> k \<in> set done))
    \<and> available_scientists (snd (update_research s))
         = available_scientists s
           + sum_list (map (\<lambda>kp. scientists_assigned (snd kp))
               (filter (\<lambda>kp. completes (efficiency s) (snd kp)) (active_projects s)))
    \<and> researched_technologies (snd (update_research s))
         = researched_technologies s
           @ filter (\<lambda>k. k \<notin> set (researched_technologies s))
               (map fst (filter (\<lambda>kp. completes (efficiency s) (snd kp)) (active_projects s)))"
proof -
  let ?eff = "efficiency s"
  let ?done = "map fst (filter (\<lambda>kp. completes ?eff (snd kp)) (active_projects s))"
  from assms(2) have ok: "list_all (\<lambda>kp. status (snd kp) = ''ACTIVE'' \<longrightarrow>
      0 < research_time (technology (snd kp))) (active_projects s)"
    by (simp add: list_all_iff)
  note closed = update_research_closed [OF assms(1) ok]
  from assms(2,3) have rt: "status p = ''ACTIVE'' \<longrightarrow> 0 < research_time (technology p)"
    by force
  note up = update_progress_closed [OF rt, of ?eff]
  have prog: "progress (snd (update_progress p ?eff)) = min 100 (progress p + tick_increase ?eff p)"
    unfolding up using assms(4) by (simp add: ticked_def)
  have projs: "map_of (active_projects (snd (update_research s))) k
      = (if \<not> completes ?eff p then Some (ticked ?eff p) else None)"
    unfolding closed
    using map_of_map_filter [OF assms(1,3), of "ticked ?eff" "\<lambda>kp. \<not> completes ?eff (snd kp)"]
    by simp
  have stay: "map_of (active_projects (snd (update_research s))) k
            = Some (p\<lparr>progress := progress p + tick_increase ?eff p\<rparr>)"
    if "\<not> completes ?eff p"
    using that assms(4) unfolding projs by (simp add: ticked_def completes_def min_def)
  have k_done: "k \<in> set ?done" if "completes ?eff p"
    using that assms(3) by force
  have fin: "update_progress p ?eff = (Inr True, p\<lparr>progress := 100, status := ''COMPLETED''\<rparr>)
          \<and> map_of (active_projects (snd (update_research s))) k = None
          \<and> k \<in> set (researched_technologies (snd (update_research s)))
          \<and> (\<exists>done. fst (update_research s) = Inr done \<and> k \<in> set done)"
    if c: "completes ?eff p"
  proof -
    have 1: "update_progress p ?eff = (Inr True, p\<lparr>progress := 100, status := ''COMPLETED''\<rparr>)"
      unfolding up using c assms(4) by (simp add: ticked_def completes_def min_def)
    have 2: "map_of (active_projects (snd (update_research s))) k = None"
      unfolding projs using c by simp
    have 3: "k \<in> set (researched_technologies (snd (update_research s)))"
      unfolding closed using k_done [OF c] by auto
    have 4: "\<exists>done. fst (update_research s) = Inr done \<and> k \<in> set done"
      unfolding closed using k_done [OF c] by simp
    from 1 2 3 4 show ?thesis by blast
  qed
  have pool: "available_scientists (snd (update_research s))
         = available_scientists s
           + sum_list (map (\<lambda>kp. scientists_assigned (snd kp))
               (filter (\<lambda>kp. completes ?eff (snd kp)) (active_projects s)))"
    unfolding closed by simp
  have res: "researched_technologies (snd (update_research s))
         = researched_technologies s @ filter (\<lambda>k. k \<notin> set (researched_technologies s)) ?done"
    unfolding closed by simp
  from prog stay fin pool res show ?thesis by blast
qed

theorem research_tick_witness:
  "fst (update_research research_nearly_done) = Inr [''BASIC_ROCKETRY'']
   \<and> active_projects (snd (update_research research_nearly_done)) = []
   \<and> researched_technologies (snd (update_research research_nearly_done)) = [''BASIC_ROCKETRY'']
   \<and> available_scientists (snd (update_research research_nearly_done)) = 10
   \<and> map_of (active_projects (snd (update_research research_started_once))) ''BASIC_ROCKETRY''
       = Some \<lparr>technology = BASIC_ROCKETRY, progress = 3 / 5, scientists_assigned = 3,
                status = ''ACTIVE''\<rparr>"
proof -
  let ?p = "\<lparr>technology = BASIC_ROCKETRY, progress = 99, scientists_assigned = 5,
             status = ''ACTIVE''\<rparr>"
  let ?q = "\<lparr>technology = BASIC_ROCKETRY, progress = 0, scientists_assigned = 3,
             status = ''ACTIVE''\<rparr>"
  have c: "completes (efficiency research_nearly_done) ?p"
    by (simp add: completes_def tick_increase_def research_nearly_done_def
        new_research_system_def BASIC_ROCKETRY_def)
  have nc: "\<not> completes (efficiency research_started_once) ?q"
    by (simp add: completes_def tick_increase_def research_started_once_def research_eval)
  have t1: "map_of (active_projects (snd (update_research research_nearly_done))) ''BASIC_ROCKETRY'' = None
    \<and> researched_technologies (snd (update_research research_nearly_done)) = [''BASIC_ROCKETRY'']
    \<and> available_scientists (snd (update_research research_nearly_done)) = 10"
    using research_tick [of research_nearly_done "''BASIC_ROCKETRY''" ?p] c
    by (simp add: research_nearly_done_def new_research_system_def BASIC_ROCKETRY_def
        completes_def tick_increase_def)
  have t2: "map_of (active_projects (snd (update_research research_started_once))) ''BASIC_ROCKETRY''
       = Some (?q\<lparr>progress := progress ?q + tick_increase (efficiency research_started_once) ?q\<rparr>)"
    using research_tick [of research_started_once "''BASIC_ROCKETRY''" ?q] nc
    by (simp add: research_started_once_def research_eval)
  have v: "tick_increase (efficiency research_started_once) ?q = 3 / 5"
    by (simp add: tick_increase_def research_started_once_def research_eval)
  have e: "fst (update_research research_nearly_done) = Inr [''BASIC_ROCKETRY'']
    \<and> active_projects (snd (update_research research_nearly_done)) = []"
    by (simp add: update_research_def research_nearly_done_def new_research_system_def
        BASIC_ROCKETRY_def update_progress_def dict_has_def dict_del_def Let_def)
  from t1 t2 e show ?thesis unfolding v by simp
qed

end
